theory Spec2Isabelle
  imports Complex_Main "HOL-Library.AList" "HOL-Library.Multiset"
begin

section \<open>Data model\<close>

subsection \<open>JSON values\<close>

text \<open>
  The extractor works on the deserialised response of the Figma REST API: Python dicts,
  lists, strings, numbers, booleans and \<open>None\<close>. A dict is an association list with
  distinct keys in insertion order; \<open>d.get(k)\<close> is \<open>map_of d k\<close>.
\<close>

datatype json =
    JNull
  | JBool bool
  | JInt int
  | JFloat rat
  | JStr string
  | JArr "json list"
  | JObj "(string \<times> json) list"

text \<open>\<^verbatim>\<open>isinstance(x, dict)\<close>\<close>

fun isinstance_dict :: "json \<Rightarrow> bool" where
  "isinstance_dict (JObj kvs) = True"
| "isinstance_dict x = False"

text \<open>\<^verbatim>\<open>x.get(k)\<close> on a dict (\<open>None\<close>: the key is absent).\<close>

fun dict_get :: "json \<Rightarrow> string \<Rightarrow> json option" where
  "dict_get (JObj kvs) k = map_of kvs k"
| "dict_get x k = None"

subsection \<open>Design nodes\<close>

text \<open>
  A node of the document tree is the dict the preprocessor reads through \<open>.get\<close>. Each key
  it reads is a field that may be absent (\<open>None\<close>); when present it has the type the API
  gives it: \<open>type\<close>, \<open>id\<close> and \<open>name\<close> are strings, \<open>isMask\<close> is a boolean, \<open>fills\<close> is a
  list of paint entries (arbitrary JSON values: the code tests each with
  \<open>isinstance(fill, dict)\<close>), \<open>children\<close> is a list of nodes. All other keys are kept in
  \<open>n_other\<close>; the preprocessor never reads them.
\<close>

datatype node = Node
  (n_type: "string option")
  (n_id: "string option")
  (n_name: "string option")
  (n_fills: "json list option")
  (n_isMask: "bool option")
  (n_absoluteBoundingBox: "json option")
  (n_children: "node list option")
  (n_other: "(string \<times> json) list")

text \<open>\<^verbatim>\<open>d.get(key, default)\<close> for a field that may be absent.\<close>

definition get_or :: "'a option \<Rightarrow> 'a \<Rightarrow> 'a" where
  "get_or field dflt = (case field of None \<Rightarrow> dflt | Some v \<Rightarrow> v)"

section \<open>The strict vector classifier (json\_preprocessor.py)\<close>

text \<open>
  \<^verbatim>\<open>
  def _has_solid_fills(self, node):
      fills = node.get('fills', [])
      for fill in fills:
          if isinstance(fill, dict) and fill.get('type') == 'SOLID':
              return True
      return False
  \<close>
\<close>

fun has_solid_loop :: "json list \<Rightarrow> bool" where
  "has_solid_loop [] = False"
| "has_solid_loop (fill # rest) =
     (if isinstance_dict fill \<and> dict_get fill ''type'' = Some (JStr ''SOLID'') then True
      else has_solid_loop rest)"

definition has_solid_fills :: "node \<Rightarrow> bool" where
  "has_solid_fills node = (let fills = get_or (n_fills node) [] in has_solid_loop fills)"

text \<open>
  \<^verbatim>\<open>
  def _is_pure_vector(self, node):
      node_type = node.get('type', '')
      if node_type != 'VECTOR': return False
      if not self._has_solid_fills(node): return False
      if node.get('isMask', False): return False
      return True
  \<close>
\<close>

definition is_pure_vector :: "node \<Rightarrow> bool" where
  "is_pure_vector node =
     (let node_type = get_or (n_type node) '''' in
      if node_type \<noteq> ''VECTOR'' then False
      else if \<not> has_solid_fills node then False
      else if get_or (n_isMask node) False then False
      else True)"

section \<open>Filename derivation\<close>

text \<open>\<^verbatim>\<open>s.replace(old, new)\<close> for single characters: every occurrence is replaced.\<close>

definition replace_char :: "char \<Rightarrow> char \<Rightarrow> string \<Rightarrow> string" where
  "replace_char old new s = map (\<lambda>c. if c = old then new else c) s"

text \<open>
  \<^verbatim>\<open>
  def _generate_filename(self, node_id):            # json_preprocessor.py
      return f"{node_id.replace(':', '_')}.svg"
  def sanitize_svg_filename(self, node_id, name=""): # figma_extractor.py
      safe_id = node_id.replace(':', '_')
      return f"{safe_id}.svg"
  \<close>
\<close>

definition generate_filename :: "string \<Rightarrow> string" where
  "generate_filename node_id = replace_char CHR '':'' CHR ''_'' node_id @ ''.svg''"

definition sanitize_svg_filename :: "string \<Rightarrow> string \<Rightarrow> string" where
  "sanitize_svg_filename node_id name =
     (let safe_id = replace_char CHR '':'' CHR ''_'' node_id in safe_id @ ''.svg'')"

text \<open>
  The native identifier format \<open><major>:<minor>\<close> of the specification: two non-empty
  runs of decimal digits separated by one colon.
\<close>

definition is_digit :: "char \<Rightarrow> bool" where
  "is_digit c = (c \<in> set ''0123456789'')"

definition native_id :: "string \<Rightarrow> bool" where
  "native_id s =
     (let major = takeWhile (\<lambda>c. c \<noteq> CHR '':'') s;
          rest = dropWhile (\<lambda>c. c \<noteq> CHR '':'') s
      in major \<noteq> [] \<and> rest \<noteq> [] \<and> tl rest \<noteq> [] \<and>
         list_all is_digit major \<and> list_all is_digit (tl rest))"

section \<open>State of the preprocessor (class JSONPreprocessor)\<close>

text \<open>
  \<open>self.stats\<close> is a dict with a fixed set of eight keys, each a Python int; it is a
  record here. \<open>self.stats['k'] += 1\<close> is \<open>stats_update (k_update (\<lambda>n. n + 1)) self\<close>.
\<close>

record stats =
  total_nodes_scanned :: int
  groups_analyzed :: int
  vector_children_found :: int
  individual_vectors_found :: int
  text_nodes_filtered :: int
  image_shapes_filtered :: int
  empty_groups_skipped :: int
  total_vector_exports :: int

text \<open>The entries of \<open>self.individual_vector_children\<close> and \<open>self.standalone_vectors\<close>.\<close>

record child_info =
  ci_id :: string
  ci_name :: string
  ci_type :: string
  ci_path :: string
  ci_bounds :: json
  ci_parent_group_id :: string
  ci_parent_group_name :: string
  ci_extraction_reason :: string

record standalone_info =
  si_id :: string
  si_name :: string
  si_type :: string
  si_path :: string
  si_bounds :: json
  si_extraction_reason :: string

text \<open>
  The two result dicts are keyed by node id. A Python dict keeps insertion order, and
  \<open>d[k] = v\<close> replaces the value of an existing key in place or appends a new key:
  this is \<open>AList.update\<close>.
\<close>

record preprocessor =
  stats :: stats
  individual_vector_children :: "(string \<times> child_info) list"
  standalone_vectors :: "(string \<times> standalone_info) list"

text \<open>The state \<open>__init__\<close> builds.\<close>

definition init_stats :: stats where
  "init_stats = \<lparr>total_nodes_scanned = 0, groups_analyzed = 0, vector_children_found = 0,
     individual_vectors_found = 0, text_nodes_filtered = 0, image_shapes_filtered = 0,
     empty_groups_skipped = 0, total_vector_exports = 0\<rparr>"

definition init_preprocessor :: preprocessor where
  "init_preprocessor =
     \<lparr>stats = init_stats, individual_vector_children = [], standalone_vectors = []\<rparr>"

text \<open>
  \<^verbatim>\<open>
  def _reset_stats(self):
      for key in self.stats: self.stats[key] = 0
      self.individual_vector_children.clear()
      self.standalone_vectors.clear()
  \<close>
\<close>

definition reset_stats :: "preprocessor \<Rightarrow> preprocessor" where
  "reset_stats self =
     self\<lparr>stats := init_stats, individual_vector_children := [], standalone_vectors := []\<rparr>"

section \<open>Group decomposition (\_analyze\_group\_content)\<close>

text \<open>The descriptor \<open>examine_child\<close> appends for a qualifying child.\<close>

record vector_child =
  vc_id :: string
  vc_name :: string
  vc_type :: string
  vc_bounds :: json

text \<open>
  \<open>examine_child\<close> is a closure over \<open>self\<close> and the two local lists \<open>vector_children\<close>
  and \<open>non_vector_children\<close>; the record \<open>scan\<close> holds the three.
\<close>

record scan =
  scan_self :: preprocessor
  vector_children :: "vector_child list"
  non_vector_children :: "string list"

text \<open>
  \<^verbatim>\<open>
  def examine_child(child, depth=0):
      if depth > 5: return
      child_type = child.get('type', ''); child_id = child.get('id', '')
      child_name = child.get('name', 'Vector')
      if child_type == 'VECTOR' and self._has_solid_fills(child) and not child.get('isMask', False):
          vector_children.append({'id': child_id, 'name': child_name, 'type': child_type,
                                  'bounds': child.get('absoluteBoundingBox', {})})
      elif child_type == 'TEXT':
          self.stats['text_nodes_filtered'] += 1; non_vector_children.append('TEXT')
      elif child_type in ['RECTANGLE', 'ELLIPSE']:
          self.stats['image_shapes_filtered'] += 1; non_vector_children.append('SHAPE')
      elif child.get('isMask', False):
          self.stats['image_shapes_filtered'] += 1; non_vector_children.append('MASK')
      else:
          non_vector_children.append(child_type)
      for grandchild in child.get('children', []):
          examine_child(grandchild, depth + 1)
  \<close>
  \<open>examine_grandchildren\<close> is the \<open>for\<close> loop.
\<close>

function examine_child :: "node \<Rightarrow> nat \<Rightarrow> scan \<Rightarrow> scan"
  and examine_grandchildren :: "node list \<Rightarrow> nat \<Rightarrow> scan \<Rightarrow> scan" where
  "examine_child child depth sc =
     (if depth > 5 then sc
      else
        let child_type = get_or (n_type child) '''';
            child_id = get_or (n_id child) '''';
            child_name = get_or (n_name child) ''Vector'';
            sc1 =
              (if child_type = ''VECTOR'' \<and> has_solid_fills child
                    \<and> \<not> get_or (n_isMask child) False then
                 sc\<lparr>vector_children := vector_children sc @
                      [\<lparr>vc_id = child_id, vc_name = child_name, vc_type = child_type,
                        vc_bounds = get_or (n_absoluteBoundingBox child) (JObj [])\<rparr>]\<rparr>
               else if child_type = ''TEXT'' then
                 sc\<lparr>scan_self :=
                        stats_update (text_nodes_filtered_update (\<lambda>n. n + 1)) (scan_self sc),
                    non_vector_children := non_vector_children sc @ [''TEXT'']\<rparr>
               else if child_type \<in> set [''RECTANGLE'', ''ELLIPSE''] then
                 sc\<lparr>scan_self :=
                        stats_update (image_shapes_filtered_update (\<lambda>n. n + 1)) (scan_self sc),
                    non_vector_children := non_vector_children sc @ [''SHAPE'']\<rparr>
               else if get_or (n_isMask child) False then
                 sc\<lparr>scan_self :=
                        stats_update (image_shapes_filtered_update (\<lambda>n. n + 1)) (scan_self sc),
                    non_vector_children := non_vector_children sc @ [''MASK'']\<rparr>
               else
                 sc\<lparr>non_vector_children := non_vector_children sc @ [child_type]\<rparr>)
        in examine_grandchildren (get_or (n_children child) []) (depth + 1) sc1)"
| "examine_grandchildren [] depth sc = sc"
| "examine_grandchildren (grandchild # rest) depth sc =
     examine_grandchildren rest depth (examine_child grandchild depth sc)"
  by pat_completeness auto
termination
proof (relation "measure (\<lambda>x. case x of
         Inl (child, depth, sc) \<Rightarrow> 2 * size child
       | Inr (cs, depth, sc) \<Rightarrow> 2 * size_list size cs + 1)", goal_cases)
  case 1
  show ?case by simp
next
  case (2 child depth sc)
  have "size_list size (get_or (n_children child) []) < size child"
    by (cases child) (simp add: get_or_def split: option.split)
  then show ?case by simp
next
  case 3
  show ?case by simp
next
  case 4
  show ?case by simp
qed

text \<open>
  \<^verbatim>\<open>
  def _analyze_group_content(self, group_node, path):
      vector_children = []; non_vector_children = []
      ...
      for child in group_node.get('children', []):
          examine_child(child)
      return {'vector_children': vector_children,
              'filtered_content': ', '.join(set(non_vector_children)) if non_vector_children else 'none',
              'vector_count': len(vector_children)}
  \<close>
  \<open>filtered_content\<close> joins the members of a Python set, whose iteration order is not
  specified; the model keeps the set that is joined (empty: the string \<open>none\<close>). No
  caller reads it.
\<close>

record group_analysis =
  ga_vector_children :: "vector_child list"
  ga_filtered_content :: "string set"
  ga_vector_count :: int

definition analyze_group_content ::
  "preprocessor \<Rightarrow> node \<Rightarrow> string \<Rightarrow> group_analysis \<times> preprocessor" where
  "analyze_group_content self group_node path =
     (let sc = examine_grandchildren (get_or (n_children group_node) []) 0
                 \<lparr>scan_self = self, vector_children = [], non_vector_children = []\<rparr>
      in (\<lparr>ga_vector_children = vector_children sc,
           ga_filtered_content = set (non_vector_children sc),
           ga_vector_count = int (length (vector_children sc))\<rparr>,
          scan_self sc))"

section \<open>The traversal (\_analyze\_groups\_for\_individual\_children)\<close>

text \<open>
  The loop over \<open>group_analysis['vector_children']\<close> in the GROUP branch of
  \<open>analyze_node\<close>:
  \<^verbatim>\<open>
  for vector_child in group_analysis['vector_children']:
      child_id = vector_child['id']; child_name = vector_child['name']
      self.individual_vector_children[child_id] = {
          'id': child_id, 'name': child_name, 'type': vector_child['type'],
          'path': f"{current_path}/{child_name}",
          'bounds': vector_child.get('bounds', {}),
          'parent_group_id': node_id, 'parent_group_name': node_name,
          'extraction_reason': 'VECTOR_CHILD_FROM_GROUP'}
      self.stats['vector_children_found'] += 1
  \<close>
\<close>

fun store_vector_children ::
  "vector_child list \<Rightarrow> string \<Rightarrow> string \<Rightarrow> string \<Rightarrow> preprocessor \<Rightarrow> preprocessor" where
  "store_vector_children [] current_path node_id node_name self = self"
| "store_vector_children (vector_child # rest) current_path node_id node_name self =
     (let child_id = vc_id vector_child;
          child_name = vc_name vector_child;
          self1 = self\<lparr>individual_vector_children :=
                    AList.update child_id
                      \<lparr>ci_id = child_id, ci_name = child_name, ci_type = vc_type vector_child,
                       ci_path = current_path @ ''/'' @ child_name,
                       ci_bounds = vc_bounds vector_child,
                       ci_parent_group_id = node_id, ci_parent_group_name = node_name,
                       ci_extraction_reason = ''VECTOR_CHILD_FROM_GROUP''\<rparr>
                      (individual_vector_children self)\<rparr>;
          self2 = stats_update (vector_children_found_update (\<lambda>n. n + 1)) self1
      in store_vector_children rest current_path node_id node_name self2)"

text \<open>
  \<^verbatim>\<open>
  def analyze_node(node, path="", parent_group=None):
      self.stats['total_nodes_scanned'] += 1
      node_type = node.get('type', ''); node_id = node.get('id', '')
      node_name = node.get('name', 'Unnamed')
      current_path = f"{path}/{node_name}" if path else node_name
      if node_type == 'GROUP':
          self.stats['groups_analyzed'] += 1
          group_analysis = self._analyze_group_content(node, current_path)
          if group_analysis['vector_children']:
              for vector_child in group_analysis['vector_children']: ...
          else:
              self.stats['empty_groups_skipped'] += 1
          return
      elif self._is_pure_vector(node) and parent_group is None:
          self.standalone_vectors[node_id] = {
              'id': node_id, 'name': node_name, 'type': node_type, 'path': current_path,
              'bounds': node.get('absoluteBoundingBox', {}),
              'extraction_reason': 'STANDALONE_VECTOR'}
          self.stats['individual_vectors_found'] += 1
      if node_type != 'GROUP' and 'children' in node:
          current_group = parent_group
          if node_type in ['FRAME', 'COMPONENT', 'INSTANCE']:
              current_group = {'id': node_id, 'name': node_name}
          for child in node['children']:
              analyze_node(child, current_path, current_group)
  \<close>
  \<open>parent_group\<close> is \<open>None\<close> or the dict \<open>{'id': .., 'name': ..}\<close>, a pair here.
  \<open>analyze_children\<close> is the final \<open>for\<close> loop.
\<close>

function analyze_node ::
    "node \<Rightarrow> string \<Rightarrow> (string \<times> string) option \<Rightarrow> preprocessor \<Rightarrow> preprocessor"
  and analyze_children ::
    "node list \<Rightarrow> string \<Rightarrow> (string \<times> string) option \<Rightarrow> preprocessor \<Rightarrow> preprocessor"
  where
  "analyze_node node path parent_group self =
     (let self1 = stats_update (total_nodes_scanned_update (\<lambda>n. n + 1)) self;
          node_type = get_or (n_type node) '''';
          node_id = get_or (n_id node) '''';
          node_name = get_or (n_name node) ''Unnamed'';
          current_path = (if path \<noteq> [] then path @ ''/'' @ node_name else node_name)
      in
        if node_type = ''GROUP'' then
          (let self2 = stats_update (groups_analyzed_update (\<lambda>n. n + 1)) self1;
               (group_analysis, self3) = analyze_group_content self2 node current_path
           in if ga_vector_children group_analysis \<noteq> [] then
                store_vector_children (ga_vector_children group_analysis)
                  current_path node_id node_name self3
              else stats_update (empty_groups_skipped_update (\<lambda>n. n + 1)) self3)
        else
          (let self2 =
                 (if is_pure_vector node \<and> parent_group = None then
                    stats_update (individual_vectors_found_update (\<lambda>n. n + 1))
                      (self1\<lparr>standalone_vectors :=
                         AList.update node_id
                           \<lparr>si_id = node_id, si_name = node_name, si_type = node_type,
                            si_path = current_path,
                            si_bounds = get_or (n_absoluteBoundingBox node) (JObj []),
                            si_extraction_reason = ''STANDALONE_VECTOR''\<rparr>
                           (standalone_vectors self1)\<rparr>)
                  else self1)
           in
             if node_type \<noteq> ''GROUP'' \<and> n_children node \<noteq> None then
               (let current_group =
                      (if node_type \<in> set [''FRAME'', ''COMPONENT'', ''INSTANCE'']
                       then Some (node_id, node_name) else parent_group)
                in analyze_children (get_or (n_children node) []) current_path
                     current_group self2)
             else self2))"
| "analyze_children [] path parent_group self = self"
| "analyze_children (child # rest) path parent_group self =
     analyze_children rest path parent_group (analyze_node child path parent_group self)"
  by pat_completeness auto
termination
proof (relation "measure (\<lambda>x. case x of
         Inl (node, path, pg, self) \<Rightarrow> 2 * size node
       | Inr (cs, path, pg, self) \<Rightarrow> 2 * size_list size cs + 1)", goal_cases)
  case 1
  show ?case by simp
next
  case (2 node path parent_group self)
  have "size_list size (get_or (n_children node) []) < size node"
    by (cases node) (simp add: get_or_def split: option.split)
  then show ?case by simp
next
  case 3
  show ?case by simp
next
  case 4
  show ?case by simp
qed

text \<open>
  The input of the preprocessor: the file dict of the API. \<open>document\<close> is a node whose
  children are the pages; \<open>_metadata\<close>, when present, is a dict; every other key is
  carried along unread. (A \<open>_svgDownloads\<close> or \<open>_svgMapping\<close> key of the input is
  overwritten by the preprocessor, so the input record has none.)
\<close>

record figma_data =
  fd_document :: "node option"
  fd_metadata :: "(string \<times> json) list option"
  fd_other :: "(string \<times> json) list"

text \<open>
  \<^verbatim>\<open>
  if 'document' in figma_data:
      for page in figma_data['document'].get('children', []):
          analyze_node(page)
  self.stats['total_vector_exports'] =
      len(self.individual_vector_children) + len(self.standalone_vectors)
  \<close>
\<close>

definition analyze_groups_for_individual_children ::
  "preprocessor \<Rightarrow> figma_data \<Rightarrow> preprocessor" where
  "analyze_groups_for_individual_children self figma_data =
     (let self1 =
            (case fd_document figma_data of
               None \<Rightarrow> self
             | Some document \<Rightarrow>
                 analyze_children (get_or (n_children document) []) '''' None self)
      in stats_update (total_vector_exports_update (\<lambda>_.
           int (length (individual_vector_children self1))
             + int (length (standalone_vectors self1)))) self1)"

section \<open>The output document (\_generate\_child\_based\_json)\<close>

text \<open>
  An entry of \<open>_svgDownloads\<close>. The keys \<open>parent_group_id\<close> and \<open>parent_group_name\<close>
  exist only in the entries built from \<open>individual_vector_children\<close>; \<open>None\<close> is the
  absent key.
\<close>

record svg_download =
  sd_node_id :: string
  sd_type :: string
  sd_is_group :: bool
  sd_component_name :: string
  sd_path :: string
  sd_filename :: string
  sd_extraction_reason :: string
  sd_parent_group_id :: "string option"
  sd_parent_group_name :: "string option"
  sd_bounds :: json

record svg_mapping_entry =
  sm_filename :: string
  sm_is_group :: bool
  sm_component_name :: string

text \<open>
  The result: the deep copy of the input (\<open>json.loads(json.dumps(original_data))\<close>)
  with the keys \<open>_svgDownloads\<close>, \<open>_svgMapping\<close> and \<open>_metadata\<close> set.
\<close>

record optimized_data =
  od_document :: "node option"
  od_other :: "(string \<times> json) list"
  od_metadata :: "(string \<times> json) list option"
  od_svgDownloads :: "(string \<times> svg_download) list"
  od_svgMapping :: "(string \<times> svg_mapping_entry) list"

text \<open>
  \<^verbatim>\<open>
  child_based_svg_downloads = {}
  for child_id, child_data in self.individual_vector_children.items():
      child_based_svg_downloads[child_id] = {
          'node_id': child_id, 'type': 'VECTOR', 'is_group': False,
          'component_name': child_data['name'], 'path': child_data['path'],
          'filename': self._generate_filename(child_id),
          'extraction_reason': child_data['extraction_reason'],
          'parent_group_id': child_data.get('parent_group_id'),
          'parent_group_name': child_data.get('parent_group_name'),
          'bounds': child_data.get('bounds', {})}
  for vector_id, vector_data in self.standalone_vectors.items():
      child_based_svg_downloads[vector_id] = {
          'node_id': vector_id, 'type': 'VECTOR', 'is_group': False,
          'component_name': vector_data['name'], 'path': vector_data['path'],
          'filename': self._generate_filename(vector_id),
          'extraction_reason': vector_data['extraction_reason'],
          'bounds': vector_data.get('bounds', {})}
  \<close>
\<close>

fun add_child_downloads ::
  "(string \<times> child_info) list \<Rightarrow> (string \<times> svg_download) list
     \<Rightarrow> (string \<times> svg_download) list" where
  "add_child_downloads [] downloads = downloads"
| "add_child_downloads ((child_id, child_data) # rest) downloads =
     add_child_downloads rest
       (AList.update child_id
          \<lparr>sd_node_id = child_id, sd_type = ''VECTOR'', sd_is_group = False,
           sd_component_name = ci_name child_data, sd_path = ci_path child_data,
           sd_filename = generate_filename child_id,
           sd_extraction_reason = ci_extraction_reason child_data,
           sd_parent_group_id = Some (ci_parent_group_id child_data),
           sd_parent_group_name = Some (ci_parent_group_name child_data),
           sd_bounds = ci_bounds child_data\<rparr>
          downloads)"

fun add_standalone_downloads ::
  "(string \<times> standalone_info) list \<Rightarrow> (string \<times> svg_download) list
     \<Rightarrow> (string \<times> svg_download) list" where
  "add_standalone_downloads [] downloads = downloads"
| "add_standalone_downloads ((vector_id, vector_data) # rest) downloads =
     add_standalone_downloads rest
       (AList.update vector_id
          \<lparr>sd_node_id = vector_id, sd_type = ''VECTOR'', sd_is_group = False,
           sd_component_name = si_name vector_data, sd_path = si_path vector_data,
           sd_filename = generate_filename vector_id,
           sd_extraction_reason = si_extraction_reason vector_data,
           sd_parent_group_id = None, sd_parent_group_name = None,
           sd_bounds = si_bounds vector_data\<rparr>
          downloads)"

text \<open>
  \<^verbatim>\<open>
  svg_mapping = {}
  for node_id, svg_info in child_based_svg_downloads.items():
      safe_node_id = node_id.replace(':', '_')
      svg_mapping[safe_node_id] = {'filename': svg_info['filename'], 'is_group': False,
                                   'component_name': svg_info['component_name']}
  \<close>
\<close>

fun add_svg_mapping ::
  "(string \<times> svg_download) list \<Rightarrow> (string \<times> svg_mapping_entry) list
     \<Rightarrow> (string \<times> svg_mapping_entry) list" where
  "add_svg_mapping [] svg_mapping = svg_mapping"
| "add_svg_mapping ((node_id, svg_info) # rest) svg_mapping =
     (let safe_node_id = replace_char CHR '':'' CHR ''_'' node_id
      in add_svg_mapping rest
           (AList.update safe_node_id
              \<lparr>sm_filename = sd_filename svg_info, sm_is_group = False,
               sm_component_name = sd_component_name svg_info\<rparr>
              svg_mapping))"

definition generate_child_based_json :: "preprocessor \<Rightarrow> figma_data \<Rightarrow> optimized_data" where
  "generate_child_based_json self original_data =
     (let child_based_svg_downloads =
            add_standalone_downloads (standalone_vectors self)
              (add_child_downloads (individual_vector_children self) []);
          svg_mapping = add_svg_mapping child_based_svg_downloads []
      in \<lparr>od_document = fd_document original_data,
          od_other = fd_other original_data,
          od_metadata = fd_metadata original_data,
          od_svgDownloads = child_based_svg_downloads,
          od_svgMapping = svg_mapping\<rparr>)"

section \<open>Metadata and the entry point\<close>

text \<open>\<open>self.stats.copy()\<close> as the JSON dict that is stored in the metadata.\<close>

definition stats_json :: "stats \<Rightarrow> json" where
  "stats_json s = JObj
     [(''total_nodes_scanned'', JInt (total_nodes_scanned s)),
      (''groups_analyzed'', JInt (groups_analyzed s)),
      (''vector_children_found'', JInt (vector_children_found s)),
      (''individual_vectors_found'', JInt (individual_vectors_found s)),
      (''text_nodes_filtered'', JInt (text_nodes_filtered s)),
      (''image_shapes_filtered'', JInt (image_shapes_filtered s)),
      (''empty_groups_skipped'', JInt (empty_groups_skipped s)),
      (''total_vector_exports'', JInt (total_vector_exports s))]"

text \<open>
  \<^verbatim>\<open>
  def _add_preprocessing_metadata(self, optimized_data):
      if '_metadata' not in optimized_data: optimized_data['_metadata'] = {}
      optimized_data['_metadata']['preprocessing'] = {
          'processed_at': datetime.now().isoformat(),
          'preprocessing_version': '3.0_child_based_extraction_fixed',
          'approach': 'child_based_individual_extraction',
          'statistics': self.stats.copy(),
          'filtering_criteria': {
              'vector_types_included': ['VECTOR'],
              'content_excluded': ['TEXT', 'SHAPES', 'MASKS'],
              'fill_types_required': ['SOLID'],
              'extraction_strategy': 'individual_vector_children'}}
      optimized_data['_metadata']['preprocessing_applied'] = True
  \<close>
  The wall clock is an input of the model: \<open>now\<close> is the string
  \<open>datetime.now().isoformat()\<close> returns when the call is made.
\<close>

definition add_preprocessing_metadata ::
  "preprocessor \<Rightarrow> string \<Rightarrow> optimized_data \<Rightarrow> optimized_data" where
  "add_preprocessing_metadata self now optimized_data =
     (let metadata0 = (case od_metadata optimized_data of None \<Rightarrow> [] | Some m \<Rightarrow> m);
          metadata1 = AList.update ''preprocessing''
            (JObj
              [(''processed_at'', JStr now),
               (''preprocessing_version'', JStr ''3.0_child_based_extraction_fixed''),
               (''approach'', JStr ''child_based_individual_extraction''),
               (''statistics'', stats_json (stats self)),
               (''filtering_criteria'', JObj
                  [(''vector_types_included'', JArr [JStr ''VECTOR'']),
                   (''content_excluded'', JArr [JStr ''TEXT'', JStr ''SHAPES'', JStr ''MASKS'']),
                   (''fill_types_required'', JArr [JStr ''SOLID'']),
                   (''extraction_strategy'', JStr ''individual_vector_children'')])])
            metadata0;
          metadata2 = AList.update ''preprocessing_applied'' (JBool True) metadata1
      in optimized_data\<lparr>od_metadata := Some metadata2\<rparr>)"

text \<open>
  \<^verbatim>\<open>
  def preprocess_figma_json(self, raw_figma_data, output_path=None):
      self._reset_stats()
      self._analyze_groups_for_individual_children(raw_figma_data)
      optimized_data = self._generate_child_based_json(raw_figma_data)
      self._add_preprocessing_metadata(optimized_data)
      if output_path:
          self._save_optimized_json(optimized_data, output_path)
      self._print_preprocessing_summary()
      return optimized_data
  \<close>
  \<open>_save_optimized_json\<close> writes a file and re-raises when the write fails; the file
  system is an input of the model: \<open>output_path\<close> is \<open>None\<close> when no path is given and
  \<open>Some ok\<close> otherwise, \<open>ok\<close> telling whether the write succeeds. Logging is not
  modelled. The function returns the document and leaves \<open>self\<close> changed; the model
  returns both.
\<close>

datatype error = SaveFailed

definition preprocess_figma_json ::
  "preprocessor \<Rightarrow> figma_data \<Rightarrow> string \<Rightarrow> bool option
     \<Rightarrow> error + (optimized_data \<times> preprocessor)" where
  "preprocess_figma_json self raw_figma_data now output_path =
     (let self1 = reset_stats self;
          self2 = analyze_groups_for_individual_children self1 raw_figma_data;
          optimized_data = generate_child_based_json self2 raw_figma_data;
          optimized_data1 = add_preprocessing_metadata self2 now optimized_data
      in case output_path of
           Some False \<Rightarrow> Inl SaveFailed
         | _ \<Rightarrow> Inr (optimized_data1, self2))"

section \<open>The traversals as lists of visits\<close>

text \<open>
  The two recursive walks thread a state through every call. For the proofs each walk
  is split in two: the list of calls it makes, in order, and the effect of one call
  without its recursive calls. The lemmas \<open>examine_child_fold\<close> and \<open>analyze_node_fold\<close>
  show that folding the one-call effect over the list of calls is the walk.
\<close>

text \<open>All nodes of a subtree, in document order.\<close>

function all_nodes :: "node \<Rightarrow> node list"
  and all_nodes_list :: "node list \<Rightarrow> node list" where
  "all_nodes node = node # all_nodes_list (get_or (n_children node) [])"
| "all_nodes_list [] = []"
| "all_nodes_list (child # rest) = all_nodes child @ all_nodes_list rest"
  by pat_completeness auto
termination
proof (relation "measure (\<lambda>x. case x of
         Inl node \<Rightarrow> 2 * size node
       | Inr cs \<Rightarrow> 2 * size_list size cs + 1)", goal_cases)
  case 1
  show ?case by simp
next
  case (2 node)
  have "size_list size (get_or (n_children node) []) < size node"
    by (cases node) (simp add: get_or_def split: option.split)
  then show ?case by simp
next
  case 3
  show ?case by simp
next
  case 4
  show ?case by simp
qed

text \<open>
  The nodes \<open>examine_child child depth\<close> examines: the node and its descendants down to
  the depth cap (calls with \<open>depth > 5\<close> return at once).
\<close>

function scanned :: "node \<Rightarrow> nat \<Rightarrow> node list"
  and scanned_list :: "node list \<Rightarrow> nat \<Rightarrow> node list" where
  "scanned child depth =
     (if depth > 5 then []
      else child # scanned_list (get_or (n_children child) []) (depth + 1))"
| "scanned_list [] depth = []"
| "scanned_list (grandchild # rest) depth = scanned grandchild depth @ scanned_list rest depth"
  by pat_completeness auto
termination
proof (relation "measure (\<lambda>x. case x of
         Inl (child, depth) \<Rightarrow> 2 * size child
       | Inr (cs, depth) \<Rightarrow> 2 * size_list size cs + 1)", goal_cases)
  case 1
  show ?case by simp
next
  case (2 child depth)
  have "size_list size (get_or (n_children child) []) < size child"
    by (cases child) (simp add: get_or_def split: option.split)
  then show ?case by simp
next
  case 3
  show ?case by simp
next
  case 4
  show ?case by simp
qed

text \<open>The branch \<open>examine_child\<close> takes at one node: its body without the final loop.\<close>

definition examine_step :: "node \<Rightarrow> scan \<Rightarrow> scan" where
  "examine_step child sc =
     (let child_type = get_or (n_type child) '''';
          child_id = get_or (n_id child) '''';
          child_name = get_or (n_name child) ''Vector''
      in if child_type = ''VECTOR'' \<and> has_solid_fills child
              \<and> \<not> get_or (n_isMask child) False then
           sc\<lparr>vector_children := vector_children sc @
                [\<lparr>vc_id = child_id, vc_name = child_name, vc_type = child_type,
                  vc_bounds = get_or (n_absoluteBoundingBox child) (JObj [])\<rparr>]\<rparr>
         else if child_type = ''TEXT'' then
           sc\<lparr>scan_self :=
                  stats_update (text_nodes_filtered_update (\<lambda>n. n + 1)) (scan_self sc),
              non_vector_children := non_vector_children sc @ [''TEXT'']\<rparr>
         else if child_type \<in> set [''RECTANGLE'', ''ELLIPSE''] then
           sc\<lparr>scan_self :=
                  stats_update (image_shapes_filtered_update (\<lambda>n. n + 1)) (scan_self sc),
              non_vector_children := non_vector_children sc @ [''SHAPE'']\<rparr>
         else if get_or (n_isMask child) False then
           sc\<lparr>scan_self :=
                  stats_update (image_shapes_filtered_update (\<lambda>n. n + 1)) (scan_self sc),
              non_vector_children := non_vector_children sc @ [''MASK'']\<rparr>
         else
           sc\<lparr>non_vector_children := non_vector_children sc @ [child_type]\<rparr>)"

text \<open>
  The calls \<open>analyze_node node path parent_group\<close> makes, each with its arguments: the
  call itself and, unless the node is a GROUP, the calls for its children.
\<close>

type_synonym visit = "node \<times> string \<times> (string \<times> string) option"

definition current_path_of :: "node \<Rightarrow> string \<Rightarrow> string" where
  "current_path_of node path =
     (let node_name = get_or (n_name node) ''Unnamed''
      in if path \<noteq> [] then path @ ''/'' @ node_name else node_name)"

definition current_group_of ::
  "node \<Rightarrow> (string \<times> string) option \<Rightarrow> (string \<times> string) option" where
  "current_group_of node parent_group =
     (if get_or (n_type node) '''' \<in> set [''FRAME'', ''COMPONENT'', ''INSTANCE'']
      then Some (get_or (n_id node) '''', get_or (n_name node) ''Unnamed'')
      else parent_group)"

function visited :: "node \<Rightarrow> string \<Rightarrow> (string \<times> string) option \<Rightarrow> visit list"
  and visited_list :: "node list \<Rightarrow> string \<Rightarrow> (string \<times> string) option \<Rightarrow> visit list"
  where
  "visited node path parent_group =
     (node, path, parent_group) #
     (if get_or (n_type node) '''' = ''GROUP'' then []
      else visited_list (get_or (n_children node) []) (current_path_of node path)
             (current_group_of node parent_group))"
| "visited_list [] path parent_group = []"
| "visited_list (child # rest) path parent_group =
     visited child path parent_group @ visited_list rest path parent_group"
  by pat_completeness auto
termination
proof (relation "measure (\<lambda>x. case x of
         Inl (node, path, pg) \<Rightarrow> 2 * size node
       | Inr (cs, path, pg) \<Rightarrow> 2 * size_list size cs + 1)", goal_cases)
  case 1
  show ?case by simp
next
  case (2 node path parent_group)
  have "size_list size (get_or (n_children node) []) < size node"
    by (cases node) (simp add: get_or_def split: option.split)
  then show ?case by simp
next
  case 3
  show ?case by simp
next
  case 4
  show ?case by simp
qed

text \<open>What one call of \<open>analyze_node\<close> does before it recurses.\<close>

definition analyze_step :: "visit \<Rightarrow> preprocessor \<Rightarrow> preprocessor" where
  "analyze_step v self =
     (case v of (node, path, parent_group) \<Rightarrow>
      let self1 = stats_update (total_nodes_scanned_update (\<lambda>n. n + 1)) self;
          node_type = get_or (n_type node) '''';
          node_id = get_or (n_id node) '''';
          node_name = get_or (n_name node) ''Unnamed'';
          current_path = (if path \<noteq> [] then path @ ''/'' @ node_name else node_name)
      in
        if node_type = ''GROUP'' then
          (let self2 = stats_update (groups_analyzed_update (\<lambda>n. n + 1)) self1;
               (group_analysis, self3) = analyze_group_content self2 node current_path
           in if ga_vector_children group_analysis \<noteq> [] then
                store_vector_children (ga_vector_children group_analysis)
                  current_path node_id node_name self3
              else stats_update (empty_groups_skipped_update (\<lambda>n. n + 1)) self3)
        else if is_pure_vector node \<and> parent_group = None then
          stats_update (individual_vectors_found_update (\<lambda>n. n + 1))
            (self1\<lparr>standalone_vectors :=
               AList.update node_id
                 \<lparr>si_id = node_id, si_name = node_name, si_type = node_type,
                  si_path = current_path,
                  si_bounds = get_or (n_absoluteBoundingBox node) (JObj []),
                  si_extraction_reason = ''STANDALONE_VECTOR''\<rparr>
                 (standalone_vectors self1)\<rparr>)
        else self1)"

text \<open>The pages of the document: the nodes the traversal starts from.\<close>

definition pages :: "figma_data \<Rightarrow> node list" where
  "pages figma_data =
     (case fd_document figma_data of
        None \<Rightarrow> []
      | Some document \<Rightarrow> get_or (n_children document) [])"

text \<open>The id the code reads from a node, and the ids of all nodes below the document.\<close>

definition id_of :: "node \<Rightarrow> string" where
  "id_of node = get_or (n_id node) ''''"

definition document_nodes :: "figma_data \<Rightarrow> node list" where
  "document_nodes figma_data = all_nodes_list (pages figma_data)"

section \<open>What the walks record, stated on the tree\<close>

text \<open>
  The descriptor \<open>examine_child\<close> builds for a qualifying node, and the reason under
  which it files a node that does not qualify: the \<open>elif\<close> chain read as a function
  of the node. TEXT comes first, then RECTANGLE and ELLIPSE, then the mask flag, and
  last the node's own type tag.
\<close>

definition vector_descriptor :: "node \<Rightarrow> vector_child" where
  "vector_descriptor child =
     \<lparr>vc_id = get_or (n_id child) '''', vc_name = get_or (n_name child) ''Vector'',
      vc_type = get_or (n_type child) '''',
      vc_bounds = get_or (n_absoluteBoundingBox child) (JObj [])\<rparr>"

definition exclusion_reason :: "node \<Rightarrow> string" where
  "exclusion_reason child =
     (if get_or (n_type child) '''' = ''TEXT'' then ''TEXT''
      else if get_or (n_type child) '''' = ''RECTANGLE''
              \<or> get_or (n_type child) '''' = ''ELLIPSE'' then ''SHAPE''
      else if get_or (n_isMask child) False then ''MASK''
      else get_or (n_type child) '''')"

text \<open>The nodes that add one to \<open>text_nodes_filtered\<close> and to \<open>image_shapes_filtered\<close>.\<close>

definition counted_text :: "node \<Rightarrow> bool" where
  "counted_text child = (get_or (n_type child) '''' = ''TEXT'')"

definition counted_shape :: "node \<Rightarrow> bool" where
  "counted_shape child =
     (get_or (n_type child) '''' \<noteq> ''TEXT'' \<and>
      (get_or (n_type child) '''' = ''RECTANGLE'' \<or> get_or (n_type child) '''' = ''ELLIPSE''
       \<or> get_or (n_isMask child) False))"

text \<open>The nodes a GROUP's decomposition claims: the qualifying nodes it scans.\<close>

definition claimed :: "node \<Rightarrow> node list" where
  "claimed group_node =
     filter is_pure_vector (scanned_list (get_or (n_children group_node) []) 0)"

text \<open>
  The entries one call of \<open>analyze_node\<close> writes, in order: into
  \<open>individual_vector_children\<close> (a GROUP writes one entry per claimed node) and into
  \<open>standalone_vectors\<close>.
\<close>

definition child_entry :: "node \<Rightarrow> string \<Rightarrow> node \<Rightarrow> string \<times> child_info" where
  "child_entry group_node path child =
     (get_or (n_id child) '''',
      \<lparr>ci_id = get_or (n_id child) '''', ci_name = get_or (n_name child) ''Vector'',
       ci_type = get_or (n_type child) '''',
       ci_path = current_path_of group_node path @ ''/'' @ get_or (n_name child) ''Vector'',
       ci_bounds = get_or (n_absoluteBoundingBox child) (JObj []),
       ci_parent_group_id = get_or (n_id group_node) '''',
       ci_parent_group_name = get_or (n_name group_node) ''Unnamed'',
       ci_extraction_reason = ''VECTOR_CHILD_FROM_GROUP''\<rparr>)"

definition child_writes :: "visit \<Rightarrow> (string \<times> child_info) list" where
  "child_writes v =
     (case v of (node, path, parent_group) \<Rightarrow>
        if get_or (n_type node) '''' = ''GROUP''
        then map (child_entry node path) (claimed node) else [])"

definition standalone_entry :: "node \<Rightarrow> string \<Rightarrow> string \<times> standalone_info" where
  "standalone_entry node path =
     (get_or (n_id node) '''',
      \<lparr>si_id = get_or (n_id node) '''', si_name = get_or (n_name node) ''Unnamed'',
       si_type = get_or (n_type node) '''', si_path = current_path_of node path,
       si_bounds = get_or (n_absoluteBoundingBox node) (JObj []),
       si_extraction_reason = ''STANDALONE_VECTOR''\<rparr>)"

definition standalone_writes :: "visit \<Rightarrow> (string \<times> standalone_info) list" where
  "standalone_writes v =
     (case v of (node, path, parent_group) \<Rightarrow>
        if get_or (n_type node) '''' \<noteq> ''GROUP'' \<and> is_pure_vector node \<and> parent_group = None
        then [standalone_entry node path] else [])"

text \<open>A sequence of dict assignments \<open>d[k] = v\<close>.\<close>

definition assign_all :: "('k \<times> 'v) list \<Rightarrow> ('k \<times> 'v) list \<Rightarrow> ('k \<times> 'v) list" where
  "assign_all ws d = fold (\<lambda>w. AList.update (fst w) (snd w)) ws d"

text \<open>The nodes below the GROUPs the traversal stops at.\<close>

definition below_group :: "visit \<Rightarrow> node list" where
  "below_group v =
     (case v of (node, path, parent_group) \<Rightarrow>
        if get_or (n_type node) '''' = ''GROUP''
        then all_nodes_list (get_or (n_children node) []) else [])"

text \<open>
  The nodes of a subtree that have no ancestor in it of type GROUP, FRAME, COMPONENT
  or INSTANCE: the walk reaches exactly these with \<open>parent_group = None\<close>.
\<close>

function unenclosed :: "node \<Rightarrow> node list"
  and unenclosed_list :: "node list \<Rightarrow> node list" where
  "unenclosed node =
     node #
     (if get_or (n_type node) '''' \<in> set [''GROUP'', ''FRAME'', ''COMPONENT'', ''INSTANCE'']
      then [] else unenclosed_list (get_or (n_children node) []))"
| "unenclosed_list [] = []"
| "unenclosed_list (child # rest) = unenclosed child @ unenclosed_list rest"
  by pat_completeness auto
termination
proof (relation "measure (\<lambda>x. case x of
         Inl node \<Rightarrow> 2 * size node
       | Inr cs \<Rightarrow> 2 * size_list size cs + 1)", goal_cases)
  case 1
  show ?case by simp
next
  case (2 node)
  have "size_list size (get_or (n_children node) []) < size node"
    by (cases node) (simp add: get_or_def split: option.split)
  then show ?case by simp
next
  case 3
  show ?case by simp
next
  case 4
  show ?case by simp
qed

text \<open>The \<open>_svgDownloads\<close> entries built from the two dicts.\<close>

definition child_download :: "string \<times> child_info \<Rightarrow> string \<times> svg_download" where
  "child_download kv =
     (fst kv,
      \<lparr>sd_node_id = fst kv, sd_type = ''VECTOR'', sd_is_group = False,
       sd_component_name = ci_name (snd kv), sd_path = ci_path (snd kv),
       sd_filename = generate_filename (fst kv),
       sd_extraction_reason = ci_extraction_reason (snd kv),
       sd_parent_group_id = Some (ci_parent_group_id (snd kv)),
       sd_parent_group_name = Some (ci_parent_group_name (snd kv)),
       sd_bounds = ci_bounds (snd kv)\<rparr>)"

definition standalone_download :: "string \<times> standalone_info \<Rightarrow> string \<times> svg_download" where
  "standalone_download kv =
     (fst kv,
      \<lparr>sd_node_id = fst kv, sd_type = ''VECTOR'', sd_is_group = False,
       sd_component_name = si_name (snd kv), sd_path = si_path (snd kv),
       sd_filename = generate_filename (fst kv),
       sd_extraction_reason = si_extraction_reason (snd kv),
       sd_parent_group_id = None, sd_parent_group_name = None,
       sd_bounds = si_bounds (snd kv)\<rparr>)"

definition mapping_entry :: "string \<times> svg_download \<Rightarrow> string \<times> svg_mapping_entry" where
  "mapping_entry kv =
     (replace_char CHR '':'' CHR ''_'' (fst kv),
      \<lparr>sm_filename = sd_filename (snd kv), sm_is_group = False,
       sm_component_name = sd_component_name (snd kv)\<rparr>)"

section \<open>Lemmas: the walks are folds over their visits\<close>

declare examine_child.simps [simp del]
declare analyze_node.simps [simp del]
declare scanned.simps [simp del]
declare visited.simps [simp del]
declare all_nodes.simps [simp del]

lemma examine_child_unfold:
  "examine_child child depth sc =
     (if depth > 5 then sc
      else examine_grandchildren (get_or (n_children child) []) (Suc depth)
             (examine_step child sc))"
  by (subst examine_child.simps) (simp add: examine_step_def Let_def)

lemma examine_child_fold:
  "examine_child child depth sc = fold examine_step (scanned child depth) sc"
  "examine_grandchildren cs depth sc = fold examine_step (scanned_list cs depth) sc"
proof (induction child depth and cs depth arbitrary: sc and sc rule: scanned_scanned_list.induct)
  case (1 child depth)
  then show ?case
    by (simp add: examine_child_unfold scanned.simps)
next
  case (2 depth)
  show ?case by simp
next
  case (3 grandchild rest depth)
  then show ?case by simp
qed

lemma analyze_node_unfold:
  "analyze_node node path pg self =
     (if get_or (n_type node) '''' = ''GROUP'' then analyze_step (node, path, pg) self
      else analyze_children (get_or (n_children node) []) (current_path_of node path)
             (current_group_of node pg) (analyze_step (node, path, pg) self))"
  by (subst analyze_node.simps)
     (simp add: analyze_step_def Let_def current_path_of_def current_group_of_def get_or_def
           split: option.split)

lemma analyze_node_fold:
  "analyze_node node path pg self = fold analyze_step (visited node path pg) self"
  "analyze_children cs path pg self = fold analyze_step (visited_list cs path pg) self"
proof (induction node path pg and cs path pg arbitrary: self and self
       rule: visited_visited_list.induct)
  case (1 node path parent_group)
  then show ?case
    by (simp add: analyze_node_unfold visited.simps)
next
  case (2 path parent_group)
  show ?case by simp
next
  case (3 child rest path parent_group)
  then show ?case by simp
qed

section \<open>Lemmas: filenames\<close>

lemma native_id_no_underscore: "native_id s \<Longrightarrow> CHR ''_'' \<notin> set s"
proof -
  assume n: "native_id s"
  let ?P = "\<lambda>c. c \<noteq> CHR '':''"
  have s: "s = takeWhile ?P s @ dropWhile ?P s" by simp
  from n have r: "dropWhile ?P s \<noteq> []" by (simp add: native_id_def Let_def)
  then have hd: "hd (dropWhile ?P s) = CHR '':''" using hd_dropWhile[of ?P s] by simp
  from n have d1: "list_all is_digit (takeWhile ?P s)"
    and d2: "list_all is_digit (tl (dropWhile ?P s))"
    by (simp_all add: native_id_def Let_def)
  have nd: "\<not> is_digit CHR ''_''" by (simp add: is_digit_def)
  have "CHR ''_'' \<notin> set (takeWhile ?P s)" using d1 nd by (auto simp: list_all_iff)
  moreover have "CHR ''_'' \<notin> set (dropWhile ?P s)"
  proof -
    from r hd have "dropWhile ?P s = CHR '':'' # tl (dropWhile ?P s)"
      by (cases "dropWhile ?P s") auto
    then have "set (dropWhile ?P s) = insert CHR '':'' (set (tl (dropWhile ?P s)))"
      by (metis list.simps(15))
    then show ?thesis using d2 nd by (auto simp: list_all_iff)
  qed
  ultimately show ?thesis using s by (metis Un_iff set_append)
qed

lemma replace_char_inj:
  assumes "new \<notin> set a" "new \<notin> set b" "replace_char old new a = replace_char old new b"
  shows "a = b"
proof -
  let ?f = "\<lambda>c. if c = old then new else c"
  have "inj_on ?f (set a \<union> set b)" using assms(1,2) by (auto simp: inj_on_def split: if_splits)
  with assms(3) show ?thesis unfolding replace_char_def by (rule map_inj_on)
qed

section \<open>Lemmas: dict assignments\<close>

lemma assign_all_Nil [simp]: "assign_all [] d = d"
  by (simp add: assign_all_def)

lemma assign_all_Cons [simp]:
  "assign_all (w # ws) d = assign_all ws (AList.update (fst w) (snd w) d)"
  by (simp add: assign_all_def)

lemma assign_all_append [simp]:
  "assign_all (ws @ ws') d = assign_all ws' (assign_all ws d)"
  by (simp add: assign_all_def)

lemma map_of_assign_all: "map_of (assign_all ws d) = map_of (rev ws @ d)"
proof (induction ws arbitrary: d)
  case Nil
  show ?case by simp
next
  case (Cons w ws)
  show ?case
    by (simp add: Cons.IH update_conv' fun_eq_iff map_add_def split: option.split)
qed

lemma keys_assign_all: "fst ` set (assign_all ws d) = fst ` set ws \<union> fst ` set d"
  by (induction ws arbitrary: d) (auto simp: dom_update)

lemma distinct_assign_all:
  "distinct (map fst d) \<Longrightarrow> distinct (map fst (assign_all ws d))"
  by (induction ws arbitrary: d) (simp_all add: distinct_update)

lemma update_fresh: "k \<notin> fst ` set d \<Longrightarrow> AList.update k v d = d @ [(k, v)]"
  by (induction d) auto

lemma assign_all_distinct:
  "distinct (map fst (d @ ws)) \<Longrightarrow> assign_all ws d = d @ ws"
proof (induction ws arbitrary: d)
  case Nil
  show ?case by simp
next
  case (Cons w ws)
  from Cons.prems have fresh: "fst w \<notin> fst ` set d" by auto
  from Cons.prems have "distinct (map fst ((d @ [w]) @ ws))" by simp
  then have "assign_all ws (d @ [w]) = (d @ [w]) @ ws" by (rule Cons.IH)
  with fresh show ?case by (simp add: update_fresh)
qed

lemma map_of_assign_all_in:
  assumes "(k, v) \<in> set ws" "\<forall>w \<in> set ws. fst w = k \<longrightarrow> P (snd w)" 
  shows "\<exists>v'. map_of (assign_all ws d) k = Some v' \<and> P v'"
proof -
  from assms(1) have "k \<in> fst ` set (rev ws)" by force
  then obtain v' where v': "map_of (rev ws) k = Some v'"
    by (metis domD dom_map_of_conv_image_fst)
  then have "(k, v') \<in> set ws" using map_of_SomeD by fastforce
  with assms(2) have "P v'" by auto
  with v' show ?thesis by (simp add: map_of_assign_all)
qed

lemma map_of_assign_all_notin:
  "k \<notin> fst ` set ws \<Longrightarrow> map_of (assign_all ws d) k = map_of d k"
proof -
  assume "k \<notin> fst ` set ws"
  then have "map_of (rev ws) k = None" by (simp add: map_of_eq_None_iff)
  then show ?thesis by (simp add: map_of_assign_all map_add_def)
qed

section \<open>C6: filename derivation\<close>

text \<open>
  C6. Filename derivation is a function of the node id alone: the result has the id's
  characters with every colon replaced by an underscore, followed by \<open>.svg\<close>
  (\<open>48:55\<close> gives \<open>48_55.svg\<close>, \<open>12:171\<close> gives \<open>12_171.svg\<close>); the extractor's
  \<open>sanitize_svg_filename\<close> computes the same name whatever its \<open>name\<close> argument is; and
  two distinct ids of the format \<open><major>:<minor>\<close> never get the same filename.
\<close>

theorem C6_generate_filename:
  "length (generate_filename node_id) = length node_id + 4
   \<and> (\<forall>i < length node_id. generate_filename node_id ! i =
         (if node_id ! i = CHR '':'' then CHR ''_'' else node_id ! i))
   \<and> drop (length node_id) (generate_filename node_id) = ''.svg''
   \<and> sanitize_svg_filename node_id name = generate_filename node_id
   \<and> generate_filename ''48:55'' = ''48_55.svg''
   \<and> generate_filename ''12:171'' = ''12_171.svg''
   \<and> (native_id a \<and> native_id b \<and> a \<noteq> b \<longrightarrow> generate_filename a \<noteq> generate_filename b)"
proof -
  have inj: "native_id a \<and> native_id b \<and> a \<noteq> b \<longrightarrow> generate_filename a \<noteq> generate_filename b"
    using replace_char_inj[of "CHR ''_''" a b "CHR '':''"] native_id_no_underscore[of a]
      native_id_no_underscore[of b]
    by (auto simp: generate_filename_def)
  have nth: "\<forall>i < length node_id. generate_filename node_id ! i =
         (if node_id ! i = CHR '':'' then CHR ''_'' else node_id ! i)"
    by (simp add: generate_filename_def nth_append replace_char_def)
  have len: "length (generate_filename node_id) = length node_id + 4"
    by (simp add: generate_filename_def replace_char_def)
  have suffix: "drop (length node_id) (generate_filename node_id) = ''.svg''"
    by (simp add: generate_filename_def replace_char_def)
  have same: "sanitize_svg_filename node_id name = generate_filename node_id"
    by (simp add: generate_filename_def sanitize_svg_filename_def)
  have ex: "generate_filename ''48:55'' = ''48_55.svg''"
    "generate_filename ''12:171'' = ''12_171.svg''"
    by (simp_all add: generate_filename_def replace_char_def)
  from inj nth len suffix same ex show ?thesis by blast
qed

theorem C6_generate_filename_witness:
  "native_id ''48:55'' \<and> native_id ''12:171'' \<and> ''48:55'' \<noteq> ''12:171''
   \<and> generate_filename ''48:55'' \<noteq> generate_filename ''12:171''
   \<and> generate_filename ''48:55'' ! 2 = CHR ''_''"
proof -
  have n1: "native_id ''48:55''" by (simp add: native_id_def is_digit_def)
  have n2: "native_id ''12:171''" by (simp add: native_id_def is_digit_def)
  show ?thesis
    using C6_generate_filename[of "''48:55''" "''''" "''48:55''" "''12:171''"] n1 n2 by simp
qed

end
